theory Spec2Isabelle
  imports Main
begin

section \<open>Values, strings and the hyphenation of property names\<close>

text \<open>
  The plugin (dist/es2015/index.js) keeps one CSS property of an element's inline style in
  step with a source expression. Its two classes are \<open>InlineStyleObserver\<close> and
  \<open>StyleBinding\<close>. Object references are natural numbers.
\<close>

type_synonym ref = nat

text \<open>
  The JavaScript values that flow between source and style. \<open>Num\<close> carries the
  integral numbers; \<open>NaN\<close> is kept apart because \<open>===\<close> is not reflexive on it.
\<close>

datatype jsval = Undefined | Null | Bool bool | Num int | NaN | Str string | Obj ref

fun strict_eq :: "jsval \<Rightarrow> jsval \<Rightarrow> bool" where
  "strict_eq NaN _ = False"
| "strict_eq _ NaN = False"
| "strict_eq a b = (a = b)"

definition strict_neq :: "jsval \<Rightarrow> jsval \<Rightarrow> bool" where
  "strict_neq a b = (\<not> strict_eq a b)"

text \<open>
  Strings are lists of code units below 256, read as Latin-1. \<open>toLowerCase\<close> on one such
  code unit maps A..Z and the upper-case letters of the Latin-1 supplement (0xC0..0xDE
  without the multiplication sign 0xD7) to the code unit 32 above and leaves every other
  code unit alone.
\<close>

definition toLowerCase_char :: "char \<Rightarrow> char" where
  "toLowerCase_char c =
     (let n = (of_char c :: nat)
      in if (65 \<le> n \<and> n \<le> 90) \<or> (192 \<le> n \<and> n \<le> 222 \<and> n \<noteq> 215)
         then char_of (n + 32) else c)"

text \<open>The character class of \<open>capitalMatcher = /([A-Z])/g\<close>.\<close>

definition capitalMatcher :: "char \<Rightarrow> bool" where
  "capitalMatcher c = (65 \<le> (of_char c :: nat) \<and> (of_char c :: nat) \<le> 90)"

definition addHyphenAndLower :: "char \<Rightarrow> string" where
  "addHyphenAndLower c = CHR ''-'' # [toLowerCase_char c]"

text \<open>\<open>String.prototype.replace\<close> with the global matcher: every match is replaced.\<close>

fun replace_capitals :: "string \<Rightarrow> string" where
  "replace_capitals [] = []"
| "replace_capitals (c # cs) =
     (if capitalMatcher c then addHyphenAndLower c @ replace_capitals cs
      else c # replace_capitals cs)"

text \<open>
  The expression computed on a cache miss:
  \<open>(name.charAt(0).toLowerCase() + name.slice(1)).replace(capitalMatcher, addHyphenAndLower)\<close>.
\<close>

definition hyphenate_compute :: "string \<Rightarrow> string" where
  "hyphenate_compute name =
     (case name of
        [] \<Rightarrow> replace_capitals []
      | c # cs \<Rightarrow> replace_capitals (toLowerCase_char c # cs))"

text \<open>
  \<open>hyphenate\<close> with its module-level cache threaded through: a hit returns the stored
  string, a miss computes, stores and returns.
\<close>

definition hyphenate :: "string \<Rightarrow> (string \<rightharpoonup> string) \<Rightarrow> string \<times> (string \<rightharpoonup> string)" where
  "hyphenate name cache =
     (case cache name of
        Some h \<Rightarrow> (h, cache)
      | None \<Rightarrow> (hyphenate_compute name, cache(name \<mapsto> hyphenate_compute name)))"


section \<open>The style surface and the events of a run\<close>

text \<open>
  What the code reads of an element's inline style: whether the \<open>style\<close> attribute is
  present (\<open>hasAttribute('style')\<close>), the enumerated rule names (\<open>style[0]\<close> up to
  \<open>style[style.length - 1]\<close>) and \<open>style.getPropertyValue\<close>, which always yields a
  string. How \<open>style.setProperty\<close> changes the surface is the platform's business and
  is a parameter of the model.
\<close>

record inline_style =
  attr_present :: bool
  rule_names :: "string list"
  getPropertyValue :: "string \<Rightarrow> string"

type_synonym dom = "string \<Rightarrow> jsval \<Rightarrow> inline_style \<Rightarrow> inline_style"

text \<open>
  A subscriber's callable is a \<open>StyleBinding\<close> or something else that the model does not
  look into.
\<close>

datatype callable = Binding ref | Foreign nat

text \<open>
  Every call that leaves the two classes is recorded: writes to the style surface, calls
  of subscribers, the mutation watch, and the calls into the source expression and the
  dependency tracker.
\<close>

datatype event =
    StyleWrite ref string jsval
  | Called string callable jsval jsval
  | WatchCreated ref
  | WatchDisconnected ref
  | ExprBind ref ref
  | ExprUnbind ref "ref option"
  | Evaluated ref "ref option"
  | Assigned ref "ref option" jsval
  | Connected ref "ref option"
  | Unobserved ref bool
  | EnqueuedConnect ref

section \<open>The subscriber collection\<close>

text \<open>
  Modelled from the spec: the subscriber-collection capability (\<open>addSubscriber\<close>,
  \<open>removeSubscriber\<close>, \<open>hasSubscribers\<close>, \<open>callSubscribers\<close>) is mixed into the
  observer by the host binding library and is not part of this repository. The spec
  describes a set of (context, callback) pairs; the pairs are kept in subscription order,
  without duplicates. Adding and removing report whether the set changed.
\<close>

type_synonym subscriber = "string \<times> callable"

definition hasSubscribers :: "subscriber list \<Rightarrow> bool" where
  "hasSubscribers subs = (subs \<noteq> [])"

definition addSubscriber :: "string \<Rightarrow> callable \<Rightarrow> subscriber list \<Rightarrow> bool \<times> subscriber list" where
  "addSubscriber context c subs =
     (if (context, c) \<in> set subs then (False, subs) else (True, subs @ [(context, c)]))"

definition removeSubscriber :: "string \<Rightarrow> callable \<Rightarrow> subscriber list \<Rightarrow> bool \<times> subscriber list" where
  "removeSubscriber context c subs =
     (if (context, c) \<in> set subs then (True, remove1 (context, c) subs) else (False, subs))"

definition callSubscribers :: "jsval \<Rightarrow> jsval \<Rightarrow> subscriber list \<Rightarrow> event list" where
  "callSubscribers newValue oldValue subs =
     map (\<lambda>(context, c). Called context c newValue oldValue) subs"

section \<open>InlineStyleObserver\<close>

text \<open>
  The fields of an observer. \<open>obs_value\<close> and \<open>prevValue\<close> start out undefined; \<open>mo\<close>
  is the mutation watch, \<open>Some e\<close> while a watch on element \<open>e\<close> is held.
\<close>

record observer =
  element :: ref
  cssRule :: string
  hyphenatedCssRule :: string
  obs_value :: jsval
  prevValue :: jsval
  mo :: "ref option"
  subscribers :: "subscriber list"

text \<open>
  An observer's methods act on the observer itself and on the style of its element; the
  state they run in holds both and the events emitted so far.
\<close>

record obs_state =
  self :: observer
  surface :: inline_style
  effects :: "event list"

text \<open>The constructor, given the hyphenated name that \<open>hyphenate(cssRule)\<close> returned.\<close>

definition new_observer :: "ref \<Rightarrow> string \<Rightarrow> string \<Rightarrow> observer" where
  "new_observer el rule hyphenated =
     \<lparr>element = el, cssRule = rule, hyphenatedCssRule = hyphenated,
      obs_value = Undefined, prevValue = Undefined, mo = None, subscribers = []\<rparr>"

definition getValue :: "obs_state \<Rightarrow> jsval" where
  "getValue s = Str (getPropertyValue (surface s) (hyphenatedCssRule (self s)))"

definition notify :: "obs_state \<Rightarrow> obs_state" where
  "notify s =
     (let prev = prevValue (self s);
          curr = obs_value (self s)
      in s\<lparr>effects := effects s @ callSubscribers curr prev (subscribers (self s))\<rparr>)"

definition setValue :: "dom \<Rightarrow> jsval \<Rightarrow> obs_state \<Rightarrow> obs_state" where
  "setValue setProperty newValue s =
     (if strict_neq newValue (obs_value (self s)) then
        let ob = (self s)\<lparr>prevValue := obs_value (self s), obs_value := newValue\<rparr>
        in notify
             (s\<lparr>self := ob,
                surface := setProperty (hyphenatedCssRule ob) (obs_value ob) (surface s),
                effects := effects s @ [StyleWrite (element ob) (hyphenatedCssRule ob) (obs_value ob)]\<rparr>)
      else s)"

definition syncValue :: "obs_state \<Rightarrow> obs_state" where
  "syncValue s =
     (let prev = obs_value (self s);
          v = getValue s
      in if strict_neq v prev then
           notify (s\<lparr>self := (self s)\<lparr>prevValue := prev, obs_value := v\<rparr>\<rparr>)
         else s)"

definition observeMutation :: "obs_state \<Rightarrow> obs_state" where
  "observeMutation s =
     (if mo (self s) = None then
        s\<lparr>self := (self s)\<lparr>mo := Some (element (self s))\<rparr>,
          effects := effects s @ [WatchCreated (element (self s))]\<rparr>
      else s)"

definition unobserveMutation :: "obs_state \<Rightarrow> obs_state" where
  "unobserveMutation s =
     (case mo (self s) of
        Some e \<Rightarrow> s\<lparr>self := (self s)\<lparr>mo := None\<rparr>, effects := effects s @ [WatchDisconnected e]\<rparr>
      | None \<Rightarrow> s)"

definition subscribe :: "string \<Rightarrow> callable \<Rightarrow> obs_state \<Rightarrow> obs_state" where
  "subscribe context c s =
     (let s1 = (if \<not> hasSubscribers (subscribers (self s)) then observeMutation s else s)
      in s1\<lparr>self := (self s1)\<lparr>subscribers := snd (addSubscriber context c (subscribers (self s1)))\<rparr>\<rparr>)"

definition unsubscribe :: "string \<Rightarrow> callable \<Rightarrow> obs_state \<Rightarrow> obs_state" where
  "unsubscribe context c s =
     (let (removed, subs) = removeSubscriber context c (subscribers (self s));
          s1 = s\<lparr>self := (self s)\<lparr>subscribers := subs\<rparr>\<rparr>
      in if removed \<and> \<not> hasSubscribers (subscribers (self s1)) then unobserveMutation s1 else s1)"

text \<open>The watch is held exactly while there is a subscriber.\<close>

definition watch_inv :: "observer \<Rightarrow> bool" where
  "watch_inv ob = ((mo ob \<noteq> None) = hasSubscribers (subscribers ob))"

section \<open>The source expression and StyleBinding\<close>

datatype bindingMode = oneTime | toView | twoWay | fromView

text \<open>
  \<open>Error msg\<close> is \<open>throw new Error(msg)\<close>; \<open>TypeError\<close> is what calling a method
  of a null \<open>styleObserver\<close> raises.
\<close>

datatype error = Error string | TypeError

text \<open>
  The context under which the host's dependency tracker calls a binding; the host binding
  library exports it as \<open>sourceContext\<close>. The other context is the module's own.
\<close>

definition sourceContext :: string where
  "sourceContext = ''Binding:source''"

definition styleObserverContext :: string where
  "styleObserverContext = ''StyleObserver:context''"

text \<open>
  The source expression is an opaque capability of the host: \<open>evaluate\<close> reads a value
  out of a scope, \<open>assign\<close> stores one into it, and the hooks \<open>bind\<close> and \<open>unbind\<close>
  are optional. \<open>'sc\<close> is the type of a scope's contents.
\<close>

record 'sc expression =
  evaluate :: "'sc \<Rightarrow> jsval"
  assign :: "'sc \<Rightarrow> jsval \<Rightarrow> 'sc"
  has_bind :: bool
  has_unbind :: bool

text \<open>
  The fields of a binding. \<open>source\<close> and \<open>styleObserver\<close> are null (\<open>None\<close>) while
  the binding is unbound; \<open>version\<close> counts the increments of \<open>_version\<close>.
\<close>

record 'sc binding =
  target :: ref
  targetProperty :: string
  sourceExpression :: "'sc expression"
  mode :: bindingMode
  isBound :: bool
  source :: "ref option"
  styleObserver :: "ref option"
  version :: nat

text \<open>
  The objects of a run. Elements are known by reference: \<open>styles\<close> is the inline style
  of each and \<open>style_observer_lookup\<close> its \<open>__style_observer__\<close> property (\<open>None\<close>
  until the first bind on the element creates the object). Observers and bindings live in
  stores indexed by reference, \<open>next_observer\<close> is the reference that the next
  \<open>new InlineStyleObserver\<close> gets. \<open>scopes\<close> gives the contents of the scope behind
  a binding's \<open>source\<close> field; what an expression makes of a null source is its own
  business, so the null source has contents too. The lookup is read under CSS rule names
  only, none of which names a member that a plain object inherits, so it is a map of its
  own keys.
\<close>

record 'sc world =
  styles :: "ref \<Rightarrow> inline_style"
  style_observer_lookup :: "ref \<Rightarrow> (string \<rightharpoonup> ref) option"
  observers :: "ref \<Rightarrow> observer"
  next_observer :: ref
  bindings :: "ref \<Rightarrow> 'sc binding"
  scopes :: "ref option \<Rightarrow> 'sc"
  hyphenateCache :: "string \<rightharpoonup> string"
  trace :: "event list"

definition log_event :: "event \<Rightarrow> 'sc world \<Rightarrow> 'sc world" where
  "log_event e w = w\<lparr>trace := trace w @ [e]\<rparr>"

definition updateSource :: "ref \<Rightarrow> jsval \<Rightarrow> 'sc world \<Rightarrow> 'sc world" where
  "updateSource b v w =
     (let bd = bindings w b
      in w\<lparr>scopes := (scopes w)(source bd := assign (sourceExpression bd) (scopes w (source bd)) v),
           trace := trace w @ [Assigned b (source bd) v]\<rparr>)"

text \<open>
  \<open>call\<close> as an observer reaches it, under \<open>styleObserverContext\<close>: the unbound check
  and the second branch.
\<close>

definition call_from_observer :: "ref \<Rightarrow> jsval \<Rightarrow> jsval \<Rightarrow> 'sc world \<Rightarrow> 'sc world" where
  "call_from_observer b newValue oldValue w =
     (if \<not> isBound (bindings w b) then w
      else if strict_neq newValue oldValue then updateSource b newValue w
      else w)"

text \<open>
  What an event emitted by an observer does to the rest of the world. A \<open>StyleBinding\<close>
  subscribes itself under \<open>styleObserverContext\<close> only (in \<open>bind\<close>), and its \<open>call\<close>
  runs when the observer calls its subscribers. Any other subscriber is opaque: its call is
  recorded and what it does is outside the model.
\<close>

fun react :: "event \<Rightarrow> 'sc world \<Rightarrow> 'sc world" where
  "react (Called context (Binding b) newValue oldValue) w =
     (if context = styleObserverContext then call_from_observer b newValue oldValue w else w)"
| "react _ w = w"

fun deliver :: "event list \<Rightarrow> 'sc world \<Rightarrow> 'sc world" where
  "deliver [] w = w"
| "deliver (e # es) w = deliver es (react e (log_event e w))"

text \<open>An observer of the store together with the style of its element.\<close>

definition observer_state :: "'sc world \<Rightarrow> ref \<Rightarrow> obs_state" where
  "observer_state w r =
     \<lparr>self = observers w r, surface = styles w (element (observers w r)), effects = []\<rparr>"

text \<open>
  Running a method of observer \<open>r\<close>: the observer and the style of its element are
  written back, and the events take effect in the order in which they were emitted.
\<close>

definition with_observer :: "(obs_state \<Rightarrow> obs_state) \<Rightarrow> ref \<Rightarrow> 'sc world \<Rightarrow> 'sc world" where
  "with_observer f r w =
     (let s = f (observer_state w r)
      in deliver (effects s)
           (w\<lparr>observers := (observers w)(r := self s),
              styles := (styles w)(element (observers w r) := surface s)\<rparr>))"

definition updateTarget :: "dom \<Rightarrow> ref \<Rightarrow> jsval \<Rightarrow> 'sc world \<Rightarrow> error + 'sc world" where
  "updateTarget setProperty b v w =
     (case styleObserver (bindings w b) of
        None \<Rightarrow> Inl TypeError
      | Some r \<Rightarrow> Inr (with_observer (setValue setProperty v) r w))"

text \<open>The tail of the source-context branch of \<open>call\<close>, skipped in one-time mode.\<close>

definition reconnect :: "ref \<Rightarrow> 'sc world \<Rightarrow> 'sc world" where
  "reconnect b w =
     (let bd = bindings w b
      in if mode bd \<noteq> oneTime then
           log_event (Unobserved b False)
             (log_event (Connected b (source bd))
                (w\<lparr>bindings := (bindings w)(b := bd\<lparr>version := version bd + 1\<rparr>)\<rparr>))
         else w)"

definition call :: "dom \<Rightarrow> ref \<Rightarrow> string \<Rightarrow> jsval \<Rightarrow> jsval \<Rightarrow> 'sc world \<Rightarrow> error + 'sc world" where
  "call setProperty b context newValue oldValue w =
     (let bd = bindings w b
      in if \<not> isBound bd then Inr w
         else if context = sourceContext then
           (case styleObserver bd of
              None \<Rightarrow> Inl TypeError
            | Some r \<Rightarrow>
                let oldValue' = getValue (observer_state w r);
                    newValue' = evaluate (sourceExpression bd) (scopes w (source bd));
                    w1 = log_event (Evaluated b (source bd)) w
                in case (if strict_neq newValue' oldValue'
                         then updateTarget setProperty b newValue' w1 else Inr w1) of
                     Inl e \<Rightarrow> Inl e
                   | Inr w2 \<Rightarrow> Inr (reconnect b w2))
         else if context = styleObserverContext then
           Inr (if strict_neq newValue oldValue then updateSource b newValue w else w)
         else Inl (Error (''Unexpected context for style binding: '' @ [CHR 0x22] @ context @ [CHR 0x22])))"

text \<open>
  The loop of \<open>findRuleValue\<close>, from index \<open>i\<close> up to \<open>ii = style.length\<close>; \<open>None\<close>
  is the \<open>null\<close> it returns when no enumerated rule is \<open>prop\<close>. An index past the
  enumerated rules reads \<open>undefined\<close>, which is no rule name, so the search ends there
  without a result.
\<close>

function findRuleValue_from :: "inline_style \<Rightarrow> string \<Rightarrow> nat \<Rightarrow> nat \<Rightarrow> string option" where
  "findRuleValue_from style prop i ii =
     (if ii > i \<and> i < length (rule_names style) then
        (if rule_names style ! i = prop then Some (getPropertyValue style prop)
         else findRuleValue_from style prop (i + 1) ii)
      else None)"
  by pat_completeness auto
termination
  by (relation "measure (\<lambda>(style, prop, i, ii). ii - i)") auto

declare findRuleValue_from.simps [simp del]

definition findRuleValue :: "inline_style \<Rightarrow> string \<Rightarrow> string option" where
  "findRuleValue style prop = findRuleValue_from style prop 0 (length (rule_names style))"

definition unbind :: "ref \<Rightarrow> 'sc world \<Rightarrow> error + 'sc world" where
  "unbind b w =
     (let bd = bindings w b
      in if \<not> isBound bd then Inr w
         else
           let w1 = w\<lparr>bindings := (bindings w)(b := bd\<lparr>isBound := False\<rparr>)\<rparr>;
               w2 = (if has_unbind (sourceExpression bd)
                     then log_event (ExprUnbind b (source bd)) w1 else w1);
               w3 = w2\<lparr>bindings := (bindings w2)(b := (bindings w2 b)\<lparr>source := None\<rparr>)\<rparr>
           in case styleObserver (bindings w3 b) of
                None \<Rightarrow> Inl TypeError
              | Some r \<Rightarrow>
                  let w4 = with_observer (unsubscribe styleObserverContext (Binding b)) r w3;
                      w5 = w4\<lparr>bindings := (bindings w4)(b := (bindings w4 b)\<lparr>styleObserver := None\<rparr>)\<rparr>
                  in Inr (log_event (Unobserved b True) w5))"

text \<open>
  Lines 144 to 152 of \<open>bind\<close>: the observer for the binding's target and property is taken
  from the element's lookup, or constructed and registered there.
\<close>

definition resolve_observer :: "ref \<Rightarrow> 'sc world \<Rightarrow> ref \<times> string \<times> 'sc world" where
  "resolve_observer b w =
     (let bd = bindings w b;
          tgt = target bd;
          styleObserversLookup =
            (case style_observer_lookup w tgt of Some l \<Rightarrow> l | None \<Rightarrow> Map.empty);
          (targetCssRule, cache1) = hyphenate (targetProperty bd) (hyphenateCache w)
      in case styleObserversLookup targetCssRule of
           Some r \<Rightarrow>
             (r, targetCssRule,
              w\<lparr>style_observer_lookup := (style_observer_lookup w)(tgt := Some styleObserversLookup),
                hyphenateCache := cache1,
                bindings := (bindings w)(b := bd\<lparr>styleObserver := Some r\<rparr>)\<rparr>)
         | None \<Rightarrow>
             let (hyphenated, cache2) = hyphenate (targetProperty bd) cache1;
                 r = next_observer w
             in (r, targetCssRule,
                 w\<lparr>style_observer_lookup :=
                     (style_observer_lookup w)(tgt := Some (styleObserversLookup(targetCssRule \<mapsto> r))),
                   hyphenateCache := cache2,
                   observers := (observers w)(r := new_observer tgt (targetProperty bd) hyphenated),
                   next_observer := r + 1,
                   bindings := (bindings w)(b := bd\<lparr>styleObserver := Some r\<rparr>)\<rparr>))"

text \<open>Lines 158 to 169: the initial reconciliation.\<close>

definition reconcile :: "dom \<Rightarrow> ref \<Rightarrow> ref \<Rightarrow> string \<Rightarrow> 'sc world \<Rightarrow> error + 'sc world" where
  "reconcile setProperty b src targetCssRule w =
     (let bd = bindings w b
      in if mode bd = fromView then
           (if attr_present (styles w (target bd)) then
              (case findRuleValue (styles w (target bd)) targetCssRule of
                 Some ruleValue \<Rightarrow> Inr (updateSource b (Str ruleValue) w)
               | None \<Rightarrow> Inr w)
            else Inr w)
         else
           updateTarget setProperty b (evaluate (sourceExpression bd) (scopes w (Some src)))
             (log_event (Evaluated b (Some src)) w))"

text \<open>Lines 170 to 182: the registration for later updates.\<close>

definition register :: "ref \<Rightarrow> ref \<Rightarrow> ref \<Rightarrow> 'sc world \<Rightarrow> 'sc world" where
  "register b src r w =
     (case mode (bindings w b) of
        oneTime \<Rightarrow> w
      | toView \<Rightarrow> log_event (EnqueuedConnect b) w
      | twoWay \<Rightarrow>
          with_observer (subscribe styleObserverContext (Binding b)) r
            (log_event (Connected b (Some src)) w)
      | fromView \<Rightarrow> with_observer (subscribe styleObserverContext (Binding b)) r w)"

text \<open>Lines 138 to 142: the binding is marked bound and the expression's hook runs.\<close>

definition begin_bind :: "ref \<Rightarrow> ref \<Rightarrow> 'sc world \<Rightarrow> 'sc world" where
  "begin_bind b src w =
     (let bd = bindings w b;
          w1 = w\<lparr>bindings := (bindings w)(b := bd\<lparr>isBound := True, source := Some src\<rparr>)\<rparr>
      in if has_bind (sourceExpression bd) then log_event (ExprBind b src) w1 else w1)"

text \<open>\<open>bind\<close> from line 138 on, once the binding is known to be unbound.\<close>

definition bind_unbound :: "dom \<Rightarrow> ref \<Rightarrow> ref \<Rightarrow> 'sc world \<Rightarrow> error + 'sc world" where
  "bind_unbound setProperty b src w =
     (let (r, targetCssRule, w3) = resolve_observer b (begin_bind b src w)
      in case reconcile setProperty b src targetCssRule w3 of
           Inl e \<Rightarrow> Inl e
         | Inr w4 \<Rightarrow> Inr (register b src r w4))"

definition bind :: "dom \<Rightarrow> ref \<Rightarrow> ref \<Rightarrow> 'sc world \<Rightarrow> error + 'sc world" where
  "bind setProperty b src w =
     (let bd = bindings w b
      in if isBound bd then
           (if source bd = Some src then Inr w
            else case unbind b w of
                   Inl e \<Rightarrow> Inl e
                 | Inr w1 \<Rightarrow> bind_unbound setProperty b src w1)
         else bind_unbound setProperty b src w)"

definition connect :: "dom \<Rightarrow> ref \<Rightarrow> bool \<Rightarrow> 'sc world \<Rightarrow> error + 'sc world" where
  "connect setProperty b ev w =
     (let bd = bindings w b
      in if \<not> isBound bd then Inr w
         else
           case (if ev
                 then updateTarget setProperty b
                        (evaluate (sourceExpression bd) (scopes w (source bd)))
                        (log_event (Evaluated b (source bd)) w)
                 else Inr w) of
             Inl e \<Rightarrow> Inl e
           | Inr w1 \<Rightarrow> Inr (log_event (Connected b (source (bindings w1 b))) w1))"


text \<open>
  A write to an element's style that does not go through an observer, such as a direct
  manipulation of the DOM; the platform reports it to the watches later.
\<close>

definition external_setProperty :: "dom \<Rightarrow> ref \<Rightarrow> string \<Rightarrow> jsval \<Rightarrow> 'sc world \<Rightarrow> 'sc world" where
  "external_setProperty setProperty el rule v w =
     w\<lparr>styles := (styles w)(el := setProperty rule v (styles w el))\<rparr>"

section \<open>Notions used in the properties\<close>

text \<open>The observer that an element's lookup holds for a hyphenated rule, if any.\<close>

definition registered :: "'sc world \<Rightarrow> ref \<Rightarrow> string \<Rightarrow> ref option" where
  "registered w el rule =
     (case style_observer_lookup w el of Some l \<Rightarrow> l rule | None \<Rightarrow> None)"

text \<open>What \<open>hyphenate(targetProperty)\<close> returns for a binding in a world.\<close>

definition targetCssRule_of :: "'sc world \<Rightarrow> ref \<Rightarrow> string" where
  "targetCssRule_of w b = fst (hyphenate (targetProperty (bindings w b)) (hyphenateCache w))"

text \<open>The kinds of event that the properties single out of a trace.\<close>

fun is_write :: "event \<Rightarrow> bool" where
  "is_write (StyleWrite el rule v) = True"
| "is_write e = False"

fun is_call :: "event \<Rightarrow> bool" where
  "is_call (Called context c newValue oldValue) = True"
| "is_call e = False"

fun is_evaluation :: "event \<Rightarrow> bool" where
  "is_evaluation (Evaluated b src) = True"
| "is_evaluation e = False"

fun is_assignment :: "event \<Rightarrow> bool" where
  "is_assignment (Assigned b src v) = True"
| "is_assignment e = False"

text \<open>
  What a binding appends to the trace when an observer calls it: the assignment to its
  source, if it is bound and the two values differ.
\<close>

fun response :: "(ref \<Rightarrow> 'sc binding) \<Rightarrow> event \<Rightarrow> event list" where
  "response bs (Called context (Binding b) newValue oldValue) =
     (if context = styleObserverContext \<and> isBound (bs b) \<and> strict_neq newValue oldValue
      then [Assigned b (source (bs b)) newValue] else [])"
| "response bs e = []"

text \<open>A bound binding holds an observer; \<open>bind\<close> and \<open>unbind\<close> keep it so.\<close>

definition binding_ok :: "'sc binding \<Rightarrow> bool" where
  "binding_ok bd = (isBound bd \<longrightarrow> styleObserver bd \<noteq> None)"

section \<open>Concrete states\<close>

text \<open>
  A platform whose \<open>setProperty\<close> stores a string as it is written and ignores any
  other value.
\<close>

definition ex_dom :: dom where
  "ex_dom rule v st =
     (case v of
        Str x \<Rightarrow>
          st\<lparr>attr_present := True,
             rule_names := (if rule \<in> set (rule_names st) then rule_names st
                            else rule_names st @ [rule]),
             getPropertyValue := (getPropertyValue st)(rule := x)\<rparr>
      | _ \<Rightarrow> st)"

text \<open>An element styled \<open>color: red\<close>.\<close>

definition ex_style :: inline_style where
  "ex_style =
     \<lparr>attr_present = True, rule_names = [''color''],
      getPropertyValue = (\<lambda>p. if p = ''color'' then ''red'' else [])\<rparr>"

text \<open>
  An observer of \<open>color\<close> on element 0 that has cached \<open>red\<close>, with a binding and a
  foreign callback subscribed and the watch running.
\<close>

definition ex_observer :: observer where
  "ex_observer =
     \<lparr>element = 0, cssRule = ''color'', hyphenatedCssRule = ''color'',
      obs_value = Str ''red'', prevValue = Undefined, mo = Some 0,
      subscribers = [(''StyleObserver:context'', Binding 0), (''other'', Foreign 1)]\<rparr>"

definition ex_state :: obs_state where
  "ex_state = \<lparr>self = ex_observer, surface = ex_style, effects = []\<rparr>"

text \<open>The same observer with a stale cache: it holds \<open>blue\<close> while the style says \<open>red\<close>.\<close>

definition ex_stale :: obs_state where
  "ex_stale = ex_state\<lparr>self := ex_observer\<lparr>obs_value := Str ''blue''\<rparr>\<rparr>"

text \<open>A newly constructed observer of \<open>color\<close> on element 0.\<close>

definition ex_fresh :: obs_state where
  "ex_fresh = \<lparr>self = new_observer 0 ''color'' ''color'', surface = ex_style, effects = []\<rparr>"

text \<open>
  A source expression over scopes that hold one value: \<open>evaluate\<close> reads it and
  \<open>assign\<close> replaces it.
\<close>

definition ex_expression :: "jsval expression" where
  "ex_expression =
     \<lparr>evaluate = (\<lambda>sc. sc), assign = (\<lambda>sc v. v), has_bind = False, has_unbind = False\<rparr>"

definition ex_binding :: "string \<Rightarrow> bindingMode \<Rightarrow> jsval binding" where
  "ex_binding p m =
     \<lparr>target = 0, targetProperty = p, sourceExpression = ex_expression, mode = m,
      isBound = False, source = None, styleObserver = None, version = 0\<rparr>"

text \<open>
  A world in which nothing has been bound yet: every element is styled \<open>color: red\<close>,
  every binding binds \<open>color\<close> on element 0 in the given mode and every scope holds the
  given value.
\<close>

definition ex_world :: "bindingMode \<Rightarrow> jsval \<Rightarrow> jsval world" where
  "ex_world m v =
     \<lparr>styles = (\<lambda>el. ex_style), style_observer_lookup = (\<lambda>el. None),
      observers = (\<lambda>r. new_observer 0 [] []), next_observer = 0,
      bindings = (\<lambda>b. ex_binding ''color'' m), scopes = (\<lambda>src. v),
      hyphenateCache = Map.empty, trace = []\<rparr>"

text \<open>The same world with elements that have no \<open>style\<close> attribute.\<close>

definition ex_unstyled :: "jsval world" where
  "ex_unstyled =
     (ex_world fromView Undefined)
       \<lparr>styles := (\<lambda>el. \<lparr>attr_present = False, rule_names = [],
                          getPropertyValue = (\<lambda>p. [])\<rparr>)\<rparr>"

text \<open>
  Binding 0 is bound two-way to scope 5 and subscribed to observer 0, the observer of
  \<open>color\<close> on element 0; source, cache and style all say \<open>red\<close>.
\<close>

definition ex_bound :: "jsval world" where
  "ex_bound =
     \<lparr>styles = (\<lambda>el. ex_style),
      style_observer_lookup = (\<lambda>el. if el = 0 then Some [''color'' \<mapsto> 0] else None),
      observers = (\<lambda>r. ex_observer), next_observer = 1,
      bindings = (\<lambda>b. if b = 0
                       then (ex_binding ''color'' twoWay)
                              \<lparr>isBound := True, source := Some 5, styleObserver := Some 0\<rparr>
                       else ex_binding ''color'' toView),
      scopes = (\<lambda>src. Str ''red''), hyphenateCache = [''color'' \<mapsto> ''color''], trace = []\<rparr>"





text \<open>
  The world that \<open>ex_unstyled\<close> becomes when binding 0 is bound from-view to scope 5,
  and that world after the elements were styled \<open>color: red\<close> from outside.
\<close>

definition ex_fromView_bound :: "jsval world" where
  "ex_fromView_bound =
     \<lparr>styles = (\<lambda>el. \<lparr>attr_present = False, rule_names = [], getPropertyValue = (\<lambda>p. [])\<rparr>),
      style_observer_lookup = (\<lambda>el. if el = 0 then Some [''color'' \<mapsto> 0] else None),
      observers = (\<lambda>r. if r = 0
                        then \<lparr>element = 0, cssRule = ''color'', hyphenatedCssRule = ''color'',
                              obs_value = Undefined, prevValue = Undefined, mo = Some 0,
                              subscribers = [(''StyleObserver:context'', Binding 0)]\<rparr>
                        else new_observer 0 [] []),
      next_observer = 1,
      bindings = (\<lambda>b. if b = 0
                       then (ex_binding ''color'' fromView)
                              \<lparr>isBound := True, source := Some 5, styleObserver := Some 0\<rparr>
                       else ex_binding ''color'' fromView),
      scopes = (\<lambda>src. Undefined), hyphenateCache = [''color'' \<mapsto> ''color''],
      trace = [WatchCreated 0]\<rparr>"

definition ex_fromView_styled :: "jsval world" where
  "ex_fromView_styled = ex_fromView_bound\<lparr>styles := (\<lambda>el. ex_style)\<rparr>"




section \<open>Properties of InlineStyleObserver\<close>

lemma callSubscribers_conv:
  "callSubscribers n p subs = map (\<lambda>sub. Called (fst sub) (snd sub) n p) subs"
  by (simp add: callSubscribers_def case_prod_unfold)

text \<open>
  C1. \<open>setValue(newValue)\<close> with \<open>newValue === value\<close> returns the state as it was:
  no field changes, nothing is written to the style surface and no subscriber is called.
  With \<open>newValue !== value\<close> the old value moves into \<open>prevValue\<close>, \<open>newValue\<close> is
  stored, it is written to the style surface under the hyphenated rule, and after the write
  every subscriber is called, in subscription order, with \<open>newValue\<close> and the old value.
\<close>

theorem setValue_dedup:
  "(strict_eq newValue (obs_value (self s)) \<longrightarrow> setValue setProperty newValue s = s) \<and>
   (\<not> strict_eq newValue (obs_value (self s)) \<longrightarrow>
      self (setValue setProperty newValue s)
        = (self s)\<lparr>prevValue := obs_value (self s), obs_value := newValue\<rparr> \<and>
      surface (setValue setProperty newValue s)
        = setProperty (hyphenatedCssRule (self s)) newValue (surface s) \<and>
      effects (setValue setProperty newValue s)
        = effects s @ StyleWrite (element (self s)) (hyphenatedCssRule (self s)) newValue
            # map (\<lambda>sub. Called (fst sub) (snd sub) newValue (obs_value (self s)))
                (subscribers (self s)))"
  by (simp add: setValue_def notify_def strict_neq_def callSubscribers_conv Let_def)

theorem setValue_dedup_witness:
  "strict_eq (Str ''red'') (obs_value (self ex_state)) \<and>
   setValue ex_dom (Str ''red'') ex_state = ex_state \<and>
   \<not> strict_eq (Str ''blue'') (obs_value (self ex_state)) \<and>
   obs_value (self (setValue ex_dom (Str ''blue'') ex_state)) = Str ''blue'' \<and>
   prevValue (self (setValue ex_dom (Str ''blue'') ex_state)) = Str ''red'' \<and>
   getPropertyValue (surface (setValue ex_dom (Str ''blue'') ex_state)) ''color'' = ''blue'' \<and>
   effects (setValue ex_dom (Str ''blue'') ex_state)
     = [StyleWrite 0 ''color'' (Str ''blue''),
        Called ''StyleObserver:context'' (Binding 0) (Str ''blue'') (Str ''red''),
        Called ''other'' (Foreign 1) (Str ''blue'') (Str ''red'')]"
  using setValue_dedup [of "Str ''red''" ex_state ex_dom]
        setValue_dedup [of "Str ''blue''" ex_state ex_dom]
  by (simp add: ex_state_def ex_observer_def ex_style_def ex_dom_def)

lemma subscribe_self:
  "self (subscribe context c s) =
     (self s)\<lparr>mo := (if subscribers (self s) = [] \<and> mo (self s) = None
                      then Some (element (self s)) else mo (self s)),
              subscribers := (if (context, c) \<in> set (subscribers (self s))
                              then subscribers (self s)
                              else subscribers (self s) @ [(context, c)])\<rparr>"
  by (simp add: subscribe_def observeMutation_def hasSubscribers_def addSubscriber_def Let_def)

lemma subscribe_effects:
  "effects (subscribe context c s) =
     effects s @ (if subscribers (self s) = [] \<and> mo (self s) = None
                  then [WatchCreated (element (self s))] else [])"
  by (simp add: subscribe_def observeMutation_def hasSubscribers_def addSubscriber_def Let_def)

lemma subscribe_surface: "surface (subscribe context c s) = surface s"
  by (simp add: subscribe_def observeMutation_def hasSubscribers_def addSubscriber_def Let_def)

lemma unsubscribe_self:
  "self (unsubscribe context c s) =
     (self s)\<lparr>mo := (if (context, c) \<in> set (subscribers (self s)) \<and>
                         remove1 (context, c) (subscribers (self s)) = []
                      then None else mo (self s)),
              subscribers := remove1 (context, c) (subscribers (self s))\<rparr>"
  by (simp add: unsubscribe_def unobserveMutation_def hasSubscribers_def removeSubscriber_def
        Let_def remove1_idem split: option.splits)

lemma unsubscribe_effects:
  "effects (unsubscribe context c s) =
     effects s @ (if (context, c) \<in> set (subscribers (self s)) \<and>
                     remove1 (context, c) (subscribers (self s)) = []
                  then (case mo (self s) of Some e \<Rightarrow> [WatchDisconnected e] | None \<Rightarrow> [])
                  else [])"
  by (simp add: unsubscribe_def unobserveMutation_def hasSubscribers_def removeSubscriber_def
        Let_def split: option.splits)

lemma unsubscribe_surface: "surface (unsubscribe context c s) = surface s"
  by (simp add: unsubscribe_def unobserveMutation_def hasSubscribers_def removeSubscriber_def
        Let_def split: option.splits)

lemma remove1_empty_iff: "x \<in> set xs \<Longrightarrow> (remove1 x xs = []) = (length xs = 1)"
  by (cases xs) (auto simp: length_remove1 dest: arg_cong [where f = length])

text \<open>
  C4. A newly constructed observer holds no watch and has no subscriber. On an observer
  that holds the watch exactly while it has a subscriber, \<open>subscribe\<close> and
  \<open>unsubscribe\<close> keep it so. \<open>subscribe\<close> creates the watch when the number of
  subscribers goes from 0 to 1 and otherwise leaves the watch alone and emits nothing;
  \<open>unsubscribe\<close> disconnects the watch and clears the handle when the number goes from
  1 to 0 and otherwise leaves the watch alone and emits nothing.
\<close>

theorem watch_lifecycle:
  "watch_inv (new_observer el rule hyphenated) \<and>
   (watch_inv (self s) \<longrightarrow>
     watch_inv (self (subscribe context c s)) \<and>
     watch_inv (self (unsubscribe context c s)) \<and>
     (if length (subscribers (self s)) = 0 \<and>
         length (subscribers (self (subscribe context c s))) = 1
      then mo (self (subscribe context c s)) = Some (element (self s)) \<and>
           effects (subscribe context c s) = effects s @ [WatchCreated (element (self s))]
      else mo (self (subscribe context c s)) = mo (self s) \<and>
           effects (subscribe context c s) = effects s) \<and>
     (if length (subscribers (self s)) = 1 \<and>
         length (subscribers (self (unsubscribe context c s))) = 0
      then mo (self (unsubscribe context c s)) = None \<and>
           (\<exists>e. mo (self s) = Some e \<and>
                effects (unsubscribe context c s) = effects s @ [WatchDisconnected e])
      else mo (self (unsubscribe context c s)) = mo (self s) \<and>
           effects (unsubscribe context c s) = effects s))"
proof (rule conjI)
  show "watch_inv (new_observer el rule hyphenated)"
    by (simp add: watch_inv_def new_observer_def hasSubscribers_def)
next
  show "watch_inv (self s) \<longrightarrow>
     watch_inv (self (subscribe context c s)) \<and>
     watch_inv (self (unsubscribe context c s)) \<and>
     (if length (subscribers (self s)) = 0 \<and>
         length (subscribers (self (subscribe context c s))) = 1
      then mo (self (subscribe context c s)) = Some (element (self s)) \<and>
           effects (subscribe context c s) = effects s @ [WatchCreated (element (self s))]
      else mo (self (subscribe context c s)) = mo (self s) \<and>
           effects (subscribe context c s) = effects s) \<and>
     (if length (subscribers (self s)) = 1 \<and>
         length (subscribers (self (unsubscribe context c s))) = 0
      then mo (self (unsubscribe context c s)) = None \<and>
           (\<exists>e. mo (self s) = Some e \<and>
                effects (unsubscribe context c s) = effects s @ [WatchDisconnected e])
      else mo (self (unsubscribe context c s)) = mo (self s) \<and>
           effects (unsubscribe context c s) = effects s)"
  proof
    assume inv: "watch_inv (self s)"
    have sub_inv: "watch_inv (self (subscribe context c s))"
      using inv by (auto simp: watch_inv_def hasSubscribers_def subscribe_self)
    have unsub_inv: "watch_inv (self (unsubscribe context c s))"
      using inv by (auto simp: watch_inv_def hasSubscribers_def unsubscribe_self remove1_idem)
    have sub_watch:
      "if length (subscribers (self s)) = 0 \<and>
          length (subscribers (self (subscribe context c s))) = 1
       then mo (self (subscribe context c s)) = Some (element (self s)) \<and>
            effects (subscribe context c s) = effects s @ [WatchCreated (element (self s))]
       else mo (self (subscribe context c s)) = mo (self s) \<and>
            effects (subscribe context c s) = effects s"
      using inv by (auto simp: watch_inv_def hasSubscribers_def subscribe_self subscribe_effects)
    have unsub_watch:
      "if length (subscribers (self s)) = 1 \<and>
          length (subscribers (self (unsubscribe context c s))) = 0
       then mo (self (unsubscribe context c s)) = None \<and>
            (\<exists>e. mo (self s) = Some e \<and>
                 effects (unsubscribe context c s) = effects s @ [WatchDisconnected e])
       else mo (self (unsubscribe context c s)) = mo (self s) \<and>
            effects (unsubscribe context c s) = effects s"
    proof (cases "(context, c) \<in> set (subscribers (self s))")
      case True
      then show ?thesis
        using inv
        by (auto simp: watch_inv_def hasSubscribers_def unsubscribe_self unsubscribe_effects
              remove1_empty_iff split: option.splits)
    next
      case False
      then show ?thesis
        using inv
        by (auto simp: watch_inv_def hasSubscribers_def unsubscribe_self unsubscribe_effects
              remove1_idem)
    qed
    from sub_inv unsub_inv sub_watch unsub_watch
    show "watch_inv (self (subscribe context c s)) \<and>
       watch_inv (self (unsubscribe context c s)) \<and>
       (if length (subscribers (self s)) = 0 \<and>
           length (subscribers (self (subscribe context c s))) = 1
        then mo (self (subscribe context c s)) = Some (element (self s)) \<and>
             effects (subscribe context c s) = effects s @ [WatchCreated (element (self s))]
        else mo (self (subscribe context c s)) = mo (self s) \<and>
             effects (subscribe context c s) = effects s) \<and>
       (if length (subscribers (self s)) = 1 \<and>
           length (subscribers (self (unsubscribe context c s))) = 0
        then mo (self (unsubscribe context c s)) = None \<and>
             (\<exists>e. mo (self s) = Some e \<and>
                  effects (unsubscribe context c s) = effects s @ [WatchDisconnected e])
        else mo (self (unsubscribe context c s)) = mo (self s) \<and>
             effects (unsubscribe context c s) = effects s)"
      by blast
  qed
qed

theorem watch_lifecycle_witness:
  "watch_inv (self ex_fresh) \<and>
   mo (self (subscribe ''StyleObserver:context'' (Binding 0) ex_fresh)) = Some 0 \<and>
   effects (subscribe ''StyleObserver:context'' (Binding 0) ex_fresh) = [WatchCreated 0] \<and>
   watch_inv (self (subscribe ''StyleObserver:context'' (Binding 0) ex_fresh)) \<and>
   mo (self (unsubscribe ''StyleObserver:context'' (Binding 0)
              (subscribe ''StyleObserver:context'' (Binding 0) ex_fresh))) = None \<and>
   effects (unsubscribe ''StyleObserver:context'' (Binding 0)
              (subscribe ''StyleObserver:context'' (Binding 0) ex_fresh))
     = [WatchCreated 0, WatchDisconnected 0]"
  using watch_lifecycle [of 0 "''color''" "''color''" ex_fresh
                            "''StyleObserver:context''" "Binding 0"]
        watch_lifecycle [of 0 "''color''" "''color''"
                            "subscribe ''StyleObserver:context'' (Binding 0) ex_fresh"
                            "''StyleObserver:context''" "Binding 0"]
  by (simp add: ex_fresh_def new_observer_def watch_inv_def hasSubscribers_def
        subscribe_self subscribe_effects unsubscribe_self unsubscribe_effects)

text \<open>
  C6, as the code has it. \<open>syncValue\<close> reads the live value from the style surface. When
  it strictly differs from the cached value, the cached value moves into \<open>prevValue\<close>,
  the live value is stored and every subscriber is called with the live value and the old
  cached value; the style surface is not written. When it is strictly equal, the state is
  returned as it was.
\<close>

theorem syncValue_no_write:
  "(strict_eq (getValue s) (obs_value (self s)) \<longrightarrow> syncValue s = s) \<and>
   (\<not> strict_eq (getValue s) (obs_value (self s)) \<longrightarrow>
      self (syncValue s) = (self s)\<lparr>prevValue := obs_value (self s), obs_value := getValue s\<rparr> \<and>
      surface (syncValue s) = surface s \<and>
      effects (syncValue s)
        = effects s @ map (\<lambda>sub. Called (fst sub) (snd sub) (getValue s) (obs_value (self s)))
                        (subscribers (self s)))"
  by (simp add: syncValue_def notify_def strict_neq_def callSubscribers_conv Let_def)

theorem syncValue_no_write_witness:
  "strict_eq (getValue ex_state) (obs_value (self ex_state)) \<and>
   syncValue ex_state = ex_state \<and>
   \<not> strict_eq (getValue ex_stale) (obs_value (self ex_stale)) \<and>
   obs_value (self (syncValue ex_stale)) = Str ''red'' \<and>
   prevValue (self (syncValue ex_stale)) = Str ''blue'' \<and>
   surface (syncValue ex_stale) = surface ex_stale \<and>
   effects (syncValue ex_stale)
     = [Called ''StyleObserver:context'' (Binding 0) (Str ''red'') (Str ''blue''),
        Called ''other'' (Foreign 1) (Str ''red'') (Str ''blue'')]"
  using syncValue_no_write [of ex_state] syncValue_no_write [of ex_stale]
  by (simp add: ex_stale_def ex_state_def ex_observer_def ex_style_def getValue_def)

text \<open>
  C6, as the claim has it, fails: on the stale observer the live value differs from the
  cached one, \<open>setValue\<close> of that value writes it to the style surface and
  \<open>syncValue\<close> does not.
\<close>

theorem syncValue_write_counterexample:
  "strict_neq (getValue ex_stale) (obs_value (self ex_stale)) \<and>
   StyleWrite 0 ''color'' (getValue ex_stale)
     \<in> set (effects (setValue ex_dom (getValue ex_stale) ex_stale)) \<and>
   StyleWrite 0 ''color'' (getValue ex_stale) \<notin> set (effects (syncValue ex_stale))"
  by (simp add: ex_stale_def ex_state_def ex_observer_def ex_style_def getValue_def
        strict_neq_def setValue_def syncValue_def notify_def callSubscribers_def Let_def)

text \<open>
  C9. \<open>unsubscribe\<close> of a pair that is not subscribed returns the state as it was: the
  subscribers and the watch are unchanged and nothing is emitted.
\<close>

theorem unsubscribe_absent:
  "(context, c) \<notin> set (subscribers (self s)) \<Longrightarrow> unsubscribe context c s = s"
  by (simp add: unsubscribe_def removeSubscriber_def)

theorem unsubscribe_absent_witness:
  "(''StyleObserver:context'', Binding 7) \<notin> set (subscribers (self ex_state)) \<and>
   unsubscribe ''StyleObserver:context'' (Binding 7) ex_state = ex_state \<and>
   mo (self (unsubscribe ''StyleObserver:context'' (Binding 7) ex_state)) = Some 0 \<and>
   length (subscribers (self (unsubscribe ''StyleObserver:context'' (Binding 7) ex_state))) = 2"
  using unsubscribe_absent [of "''StyleObserver:context''" "Binding 7" ex_state]
  by (simp add: ex_state_def ex_observer_def)

section \<open>Properties of StyleBinding\<close>


lemma log_event_fields [simp]:
  "styles (log_event e w) = styles w"
  "style_observer_lookup (log_event e w) = style_observer_lookup w"
  "observers (log_event e w) = observers w"
  "next_observer (log_event e w) = next_observer w"
  "bindings (log_event e w) = bindings w"
  "scopes (log_event e w) = scopes w"
  "hyphenateCache (log_event e w) = hyphenateCache w"
  "trace (log_event e w) = trace w @ [e]"
  by (simp_all add: log_event_def)

lemma updateSource_fields [simp]:
  "styles (updateSource b v w) = styles w"
  "style_observer_lookup (updateSource b v w) = style_observer_lookup w"
  "observers (updateSource b v w) = observers w"
  "next_observer (updateSource b v w) = next_observer w"
  "bindings (updateSource b v w) = bindings w"
  "hyphenateCache (updateSource b v w) = hyphenateCache w"
  "trace (updateSource b v w) = trace w @ [Assigned b (source (bindings w b)) v]"
  "scopes (updateSource b v w) =
     (scopes w)(source (bindings w b) :=
        assign (sourceExpression (bindings w b)) (scopes w (source (bindings w b))) v)"
  by (simp_all add: updateSource_def Let_def)

lemma call_from_observer_frame [simp]:
  "styles (call_from_observer b n p w) = styles w"
  "style_observer_lookup (call_from_observer b n p w) = style_observer_lookup w"
  "observers (call_from_observer b n p w) = observers w"
  "next_observer (call_from_observer b n p w) = next_observer w"
  "bindings (call_from_observer b n p w) = bindings w"
  "hyphenateCache (call_from_observer b n p w) = hyphenateCache w"
  by (simp_all add: call_from_observer_def)

lemma react_frame [simp]:
  "styles (react e w) = styles w"
  "style_observer_lookup (react e w) = style_observer_lookup w"
  "observers (react e w) = observers w"
  "next_observer (react e w) = next_observer w"
  "bindings (react e w) = bindings w"
  "hyphenateCache (react e w) = hyphenateCache w"
  by (induction e w rule: react.induct; simp)+

lemma deliver_frame [simp]:
  "styles (deliver es w) = styles w"
  "style_observer_lookup (deliver es w) = style_observer_lookup w"
  "observers (deliver es w) = observers w"
  "next_observer (deliver es w) = next_observer w"
  "bindings (deliver es w) = bindings w"
  "hyphenateCache (deliver es w) = hyphenateCache w"
  by (induction es arbitrary: w; simp)+

lemma with_observer_frame [simp]:
  "style_observer_lookup (with_observer f r w) = style_observer_lookup w"
  "next_observer (with_observer f r w) = next_observer w"
  "bindings (with_observer f r w) = bindings w"
  "hyphenateCache (with_observer f r w) = hyphenateCache w"
  "observers (with_observer f r w) = (observers w)(r := self (f (observer_state w r)))"
  "styles (with_observer f r w) =
     (styles w)(element (observers w r) := surface (f (observer_state w r)))"
  by (simp_all add: with_observer_def Let_def)

lemma with_observer_id: "f (observer_state w r) = observer_state w r \<Longrightarrow> with_observer f r w = w"
  by (simp add: with_observer_def observer_state_def)

text \<open>
  C8. \<open>call\<close> raises the error whose message is
  \<open>Unexpected context for style binding: "\<close>, the context and a closing quote exactly when
  the binding is bound and the context is neither the source context nor the style-observer
  context. On a bound binding that holds an observer it raises nothing else, and on an unbound
  binding it returns the world as it was, whatever the context.
\<close>

theorem call_context_error:
  "((call setProperty b context newValue oldValue w
       = Inl (Error (''Unexpected context for style binding: '' @ [CHR 0x22] @ context @ [CHR 0x22])))
      = (isBound (bindings w b) \<and> context \<noteq> sourceContext \<and> context \<noteq> styleObserverContext)) \<and>
   (binding_ok (bindings w b) \<longrightarrow>
      (\<forall>e. call setProperty b context newValue oldValue w = Inl e \<longrightarrow>
           e = Error (''Unexpected context for style binding: '' @ [CHR 0x22] @ context @ [CHR 0x22]))) \<and>
   (\<not> isBound (bindings w b) \<longrightarrow> call setProperty b context newValue oldValue w = Inr w)"
  by (auto simp: call_def Let_def binding_ok_def updateTarget_def
        split: option.splits sum.splits if_splits)

theorem call_context_error_witness:
  "binding_ok (bindings ex_bound 0) \<and> isBound (bindings ex_bound 0) \<and>
   ''bogus'' \<noteq> sourceContext \<and> ''bogus'' \<noteq> styleObserverContext \<and>
   call ex_dom 0 ''bogus'' (Str ''a'') (Str ''b'') ex_bound
     = Inl (Error (''Unexpected context for style binding: '' @ [CHR 0x22] @ ''bogus'' @ [CHR 0x22])) \<and>
   \<not> isBound (bindings (ex_world twoWay Undefined) 0) \<and>
   call ex_dom 0 ''bogus'' (Str ''a'') (Str ''b'') (ex_world twoWay Undefined)
     = Inr (ex_world twoWay Undefined)"
proof -
  have bound: "binding_ok (bindings ex_bound 0)" "isBound (bindings ex_bound 0)"
    by (simp_all add: ex_bound_def ex_binding_def binding_ok_def)
  have other: "''bogus'' \<noteq> sourceContext" "''bogus'' \<noteq> styleObserverContext"
    by (simp_all add: sourceContext_def styleObserverContext_def)
  have unbound: "\<not> isBound (bindings (ex_world twoWay Undefined) 0)"
    by (simp add: ex_world_def ex_binding_def)
  from call_context_error [of ex_dom 0 "''bogus''" "Str ''a''" "Str ''b''" ex_bound]
       call_context_error [of ex_dom 0 "''bogus''" "Str ''a''" "Str ''b''"
                              "ex_world twoWay Undefined"]
       bound other unbound
  show ?thesis
    by blast
qed

lemma hyphenate_again:
  "hyphenate name (snd (hyphenate name cache)) = (fst (hyphenate name cache), snd (hyphenate name cache))"
  by (simp add: hyphenate_def split: option.splits)



lemma resolve_observer_fst:
  "fst (resolve_observer b w) =
     (case registered w (target (bindings w b)) (targetCssRule_of w b) of
        Some r \<Rightarrow> r | None \<Rightarrow> next_observer w)"
  by (simp add: resolve_observer_def registered_def targetCssRule_of_def Let_def case_prod_unfold
        split: option.splits)

lemma resolve_observer_rule:
  "fst (snd (resolve_observer b w)) = targetCssRule_of w b"
  by (simp add: resolve_observer_def targetCssRule_of_def Let_def case_prod_unfold
        split: option.splits)

lemma resolve_observer_world:
  "styles (snd (snd (resolve_observer b w))) = styles w"
  "scopes (snd (snd (resolve_observer b w))) = scopes w"
  "trace (snd (snd (resolve_observer b w))) = trace w"
  "bindings (snd (snd (resolve_observer b w)))
     = (bindings w)(b := (bindings w b)\<lparr>styleObserver := Some (fst (resolve_observer b w))\<rparr>)"
  "hyphenateCache (snd (snd (resolve_observer b w)))
     = snd (hyphenate (targetProperty (bindings w b)) (hyphenateCache w))"
  by (simp_all add: resolve_observer_def Let_def case_prod_unfold hyphenate_again
        split: option.splits)


lemma resolve_observer_observers:
  "observers (snd (snd (resolve_observer b w))) =
     (case registered w (target (bindings w b)) (targetCssRule_of w b) of
        Some r \<Rightarrow> observers w
      | None \<Rightarrow> (observers w)(next_observer w :=
                  new_observer (target (bindings w b)) (targetProperty (bindings w b))
                    (targetCssRule_of w b)))"
  by (simp add: resolve_observer_def registered_def targetCssRule_of_def Let_def case_prod_unfold
        hyphenate_again split: option.splits)

lemma updateTarget_bindings:
  "updateTarget setProperty b v w = Inr w' \<Longrightarrow> bindings w' = bindings w"
  by (auto simp: updateTarget_def split: option.splits)

lemma reconcile_bindings:
  "reconcile setProperty b src rule w = Inr w' \<Longrightarrow> bindings w' = bindings w"
  by (auto simp: reconcile_def Let_def dest!: updateTarget_bindings split: option.splits if_splits)

lemma register_bindings [simp]: "bindings (register b src r w) = bindings w"
  by (simp add: register_def split: bindingMode.splits)

lemma begin_bind_fields [simp]:
  "styles (begin_bind b src w) = styles w"
  "style_observer_lookup (begin_bind b src w) = style_observer_lookup w"
  "observers (begin_bind b src w) = observers w"
  "next_observer (begin_bind b src w) = next_observer w"
  "scopes (begin_bind b src w) = scopes w"
  "hyphenateCache (begin_bind b src w) = hyphenateCache w"
  "bindings (begin_bind b src w)
     = (bindings w)(b := (bindings w b)\<lparr>isBound := True, source := Some src\<rparr>)"
  "trace (begin_bind b src w)
     = trace w @ (if has_bind (sourceExpression (bindings w b)) then [ExprBind b src] else [])"
  by (simp_all add: begin_bind_def Let_def)

lemma begin_bind_registered [simp]: "registered (begin_bind b src w) = registered w"
  by (simp add: registered_def fun_eq_iff)

lemma begin_bind_rule [simp]: "targetCssRule_of (begin_bind b src w) b' = targetCssRule_of w b'"
  by (simp add: targetCssRule_of_def)

lemma bind_unbound_bindings:
  "bind_unbound setProperty b src w = Inr w' \<Longrightarrow>
   bindings w' = (bindings w)(b := (bindings w b)
       \<lparr>isBound := True, source := Some src,
        styleObserver := Some (case registered w (target (bindings w b)) (targetCssRule_of w b) of
                                 Some r \<Rightarrow> r | None \<Rightarrow> next_observer w)\<rparr>)"
  by (auto simp: bind_unbound_def Let_def case_prod_unfold resolve_observer_world
        resolve_observer_fst dest!: reconcile_bindings split: sum.splits option.splits)


lemma unbind_unbound: "\<not> isBound (bindings w b) \<Longrightarrow> unbind b w = Inr w"
  by (simp add: unbind_def)

lemma react_other: "(\<And>c k n p. e \<noteq> Called c k n p) \<Longrightarrow> react e w = w"
  by (cases e) auto

lemma deliver_no_calls:
  "(\<And>c k n p. Called c k n p \<notin> set es) \<Longrightarrow> deliver es w = w\<lparr>trace := trace w @ es\<rparr>"
proof (induction es arbitrary: w)
  case Nil
  then show ?case by simp
next
  case (Cons e es)
  have "react e (log_event e w) = log_event e w"
    using Cons.prems by (intro react_other) auto
  moreover have "deliver es (log_event e w) = (log_event e w)\<lparr>trace := trace (log_event e w) @ es\<rparr>"
    using Cons.prems by (intro Cons.IH) auto
  ultimately show ?case by (simp add: log_event_def)
qed

lemma observer_state_fields [simp]:
  "self (observer_state w r) = observers w r"
  "surface (observer_state w r) = styles w (element (observers w r))"
  "effects (observer_state w r) = []"
  by (simp_all add: observer_state_def)

lemma subscribe_no_calls:
  "Called c k n p \<notin> set (effects (subscribe context x (observer_state w r)))"
  by (simp add: subscribe_effects)

lemma unsubscribe_no_calls:
  "Called c k n p \<notin> set (effects (unsubscribe context x (observer_state w r)))"
  unfolding unsubscribe_def removeSubscriber_def unobserveMutation_def hasSubscribers_def
  by (cases "mo (observers w r)") (auto simp: Let_def)

lemma with_observer_subscribe:
  "with_observer (subscribe context x) r w =
     w\<lparr>observers := (observers w)(r := self (subscribe context x (observer_state w r))),
       trace := trace w @ effects (subscribe context x (observer_state w r))\<rparr>"
  by (simp add: with_observer_def Let_def deliver_no_calls subscribe_no_calls subscribe_surface)

lemma with_observer_unsubscribe:
  "with_observer (unsubscribe context x) r w =
     w\<lparr>observers := (observers w)(r := self (unsubscribe context x (observer_state w r))),
       trace := trace w @ effects (unsubscribe context x (observer_state w r))\<rparr>"
  by (simp add: with_observer_def Let_def deliver_no_calls unsubscribe_no_calls unsubscribe_surface)

lemma unbind_result:
  assumes "isBound (bindings w b)" "styleObserver (bindings w b) = Some r"
  shows "unbind b w = Inr
          (w\<lparr>bindings := (bindings w)(b := (bindings w b)\<lparr>isBound := False, source := None, styleObserver := None\<rparr>),
             observers := (observers w)(r := self (unsubscribe styleObserverContext (Binding b) (observer_state w r))),
             trace := trace w
              @ (if has_unbind (sourceExpression (bindings w b)) then [ExprUnbind b (source (bindings w b))] else [])
              @ effects (unsubscribe styleObserverContext (Binding b) (observer_state w r))
              @ [Unobserved b True]\<rparr>)"
  using assms
  by (simp add: unbind_def Let_def with_observer_unsubscribe log_event_def observer_state_def)


lemma bind_same_source:
  "isBound (bindings w b) \<Longrightarrow> source (bindings w b) = Some x \<Longrightarrow> bind setProperty b x w = Inr w"
  by (simp add: bind_def)

lemma bind_bound:
  "bind setProperty b x w = Inr w' \<Longrightarrow> isBound (bindings w' b) \<and> source (bindings w' b) = Some x"
  by (auto simp: bind_def Let_def split: if_splits sum.splits dest!: bind_unbound_bindings)

lemma updateTarget_total:
  "styleObserver (bindings w b) \<noteq> None \<Longrightarrow> \<exists>w'. updateTarget setProperty b v w = Inr w'"
  by (auto simp: updateTarget_def)

lemma reconcile_total:
  "styleObserver (bindings w b) \<noteq> None \<Longrightarrow> \<exists>w'. reconcile setProperty b src rule w = Inr w'"
  by (auto simp: reconcile_def Let_def updateTarget_def split: option.splits)

lemma bind_unbound_total: "\<exists>w'. bind_unbound setProperty b src w = Inr w'"
proof -
  obtain r rule w3 where res: "resolve_observer b (begin_bind b src w) = (r, rule, w3)"
    by (cases "resolve_observer b (begin_bind b src w)") auto
  have "styleObserver (bindings w3 b) \<noteq> None"
    using resolve_observer_world(4) [of b "begin_bind b src w"] res by simp
  then obtain w4 where "reconcile setProperty b src rule w3 = Inr w4"
    using reconcile_total by blast
  then show ?thesis
    by (simp add: bind_unbound_def res)
qed

lemma unbind_total: "binding_ok (bindings w b) \<Longrightarrow> \<exists>w'. unbind b w = Inr w'"
  by (cases "isBound (bindings w b)") (auto simp: binding_ok_def unbind_unbound unbind_result)

lemma bind_total: "binding_ok (bindings w b) \<Longrightarrow> \<exists>w'. bind setProperty b x w = Inr w'"
  using unbind_total [of w b] bind_unbound_total [of setProperty b x]
  by (auto simp: bind_def Let_def split: sum.splits)

text \<open>
  C7. \<open>bind(x)\<close> on a binding that is already bound to \<open>x\<close> returns the world as it
  was: no subscription is added, no observer is created and nothing is recorded in the
  trace. So a bind followed by a bind of the same source leaves the world that the first
  bind left.
\<close>

theorem bind_idempotent:
  "(isBound (bindings w b) \<and> source (bindings w b) = Some x \<longrightarrow> bind setProperty b x w = Inr w) \<and>
   (binding_ok (bindings w b) \<longrightarrow>
      (\<exists>w1. bind setProperty b x w = Inr w1 \<and> bind setProperty b x w1 = Inr w1))"
  using bind_total [of w b setProperty x] bind_bound [of setProperty b x w]
  by (auto simp: bind_same_source)

theorem bind_idempotent_witness:
  "isBound (bindings ex_bound 0) \<and> source (bindings ex_bound 0) = Some 5 \<and>
   bind ex_dom 0 5 ex_bound = Inr ex_bound \<and>
   binding_ok (bindings (ex_world twoWay (Str ''blue'')) 0) \<and>
   (\<exists>w1. bind ex_dom 0 5 (ex_world twoWay (Str ''blue'')) = Inr w1 \<and>
         bind ex_dom 0 5 w1 = Inr w1)"
  using bind_idempotent [of ex_bound 0 5 ex_dom]
        bind_idempotent [of "ex_world twoWay (Str ''blue'')" 0 5 ex_dom]
  by (simp add: ex_bound_def ex_world_def ex_binding_def binding_ok_def)

lemma findRuleValue_from_eq:
  "ii = length (rule_names st) \<Longrightarrow>
   findRuleValue_from st p i ii =
     (if p \<in> set (drop i (rule_names st)) then Some (getPropertyValue st p) else None)"
proof (induction st p i ii rule: findRuleValue_from.induct)
  case (1 style p i ii)
  show ?case
  proof (cases "i < length (rule_names style)")
    case True
    then have d: "drop i (rule_names style) = rule_names style ! i # drop (i + 1) (rule_names style)"
      by (simp add: Cons_nth_drop_Suc)
    show ?thesis
      using True 1 by (subst findRuleValue_from.simps) (simp add: d)
  next
    case False
    then show ?thesis
      using 1 by (subst findRuleValue_from.simps) simp
  qed
qed

lemma findRuleValue_eq:
  "findRuleValue st p =
     (if p \<in> set (rule_names st) then Some (getPropertyValue st p) else None)"
  by (simp add: findRuleValue_def findRuleValue_from_eq)

lemma unsubscribe_values [simp]:
  "obs_value (self (unsubscribe context x s)) = obs_value (self s)"
  "prevValue (self (unsubscribe context x s)) = prevValue (self s)"
  "element (self (unsubscribe context x s)) = element (self s)"
  "cssRule (self (unsubscribe context x s)) = cssRule (self s)"
  "hyphenatedCssRule (self (unsubscribe context x s)) = hyphenatedCssRule (self s)"
  by (simp_all add: unsubscribe_self)

lemma subscribe_values [simp]:
  "obs_value (self (subscribe context x s)) = obs_value (self s)"
  "prevValue (self (subscribe context x s)) = prevValue (self s)"
  "element (self (subscribe context x s)) = element (self s)"
  "cssRule (self (subscribe context x s)) = cssRule (self s)"
  "hyphenatedCssRule (self (subscribe context x s)) = hyphenatedCssRule (self s)"
  by (simp_all add: subscribe_self)

lemma unsubscribe_effects_kinds:
  "filter is_write (effects (unsubscribe context x (observer_state w r))) = []"
  "filter is_call (effects (unsubscribe context x (observer_state w r))) = []"
  "filter is_evaluation (effects (unsubscribe context x (observer_state w r))) = []"
  "filter is_assignment (effects (unsubscribe context x (observer_state w r))) = []"
  unfolding unsubscribe_def removeSubscriber_def unobserveMutation_def hasSubscribers_def
  by ((cases "mo (observers w r)"; auto simp: Let_def)+)

lemma subscribe_effects_kinds:
  "filter is_write (effects (subscribe context x (observer_state w r))) = []"
  "filter is_call (effects (subscribe context x (observer_state w r))) = []"
  "filter is_evaluation (effects (subscribe context x (observer_state w r))) = []"
  "filter is_assignment (effects (subscribe context x (observer_state w r))) = []"
  by (simp_all add: subscribe_effects)

text \<open>
  A bind that is not the repeated bind of the same source is \<open>bind_unbound\<close> on a world
  that differs from the given one only in what \<open>unbind\<close> does.
\<close>

lemma bind_cases:
  assumes "\<not> (isBound (bindings w b) \<and> source (bindings w b) = Some x)"
      and "binding_ok (bindings w b)"
  obtains w1 where
    "bind setProperty b x w = bind_unbound setProperty b x w1"
    "styles w1 = styles w" "scopes w1 = scopes w"
    "style_observer_lookup w1 = style_observer_lookup w"
    "hyphenateCache w1 = hyphenateCache w" "next_observer w1 = next_observer w"
    "target (bindings w1 b) = target (bindings w b)"
    "targetProperty (bindings w1 b) = targetProperty (bindings w b)"
    "mode (bindings w1 b) = mode (bindings w b)"
    "sourceExpression (bindings w1 b) = sourceExpression (bindings w b)"
    "\<And>r. obs_value (observers w1 r) = obs_value (observers w r)"
    "\<And>r. prevValue (observers w1 r) = prevValue (observers w r)"
    "filter is_write (trace w1) = filter is_write (trace w)"
    "filter is_call (trace w1) = filter is_call (trace w)"
    "filter is_evaluation (trace w1) = filter is_evaluation (trace w)"
    "filter is_assignment (trace w1) = filter is_assignment (trace w)"
proof (cases "isBound (bindings w b)")
  case False
  then have "bind setProperty b x w = bind_unbound setProperty b x w"
    by (simp add: bind_def)
  then show ?thesis
    by (rule that) simp_all
next
  case True
  then obtain r where r: "styleObserver (bindings w b) = Some r"
    using assms(2) by (auto simp: binding_ok_def)
  define w1 where "w1 = w\<lparr>bindings := (bindings w)(b := (bindings w b)\<lparr>isBound := False, source := None, styleObserver := None\<rparr>),
             observers := (observers w)(r := self (unsubscribe styleObserverContext (Binding b) (observer_state w r))),
             trace := trace w
              @ (if has_unbind (sourceExpression (bindings w b)) then [ExprUnbind b (source (bindings w b))] else [])
              @ effects (unsubscribe styleObserverContext (Binding b) (observer_state w r))
              @ [Unobserved b True]\<rparr>"
  have u: "unbind b w = Inr w1"
    using unbind_result [OF True r] by (simp add: w1_def)
  have "bind setProperty b x w = bind_unbound setProperty b x w1"
    using True assms(1) u by (simp add: bind_def)
  then show ?thesis
    by (rule that) (simp_all add: w1_def unsubscribe_effects_kinds)
qed


lemma reconcile_fromView:
  "mode (bindings w b) = fromView \<Longrightarrow>
   reconcile setProperty b src rule w =
     Inr (if attr_present (styles w (target (bindings w b))) \<and>
             rule \<in> set (rule_names (styles w (target (bindings w b))))
          then updateSource b (Str (getPropertyValue (styles w (target (bindings w b))) rule)) w
          else w)"
  by (simp add: reconcile_def Let_def findRuleValue_eq)

lemma resolve_observer_binding_fields [simp]:
  "mode (bindings (snd (snd (resolve_observer b w))) b) = mode (bindings w b)"
  "target (bindings (snd (snd (resolve_observer b w))) b) = target (bindings w b)"
  "source (bindings (snd (snd (resolve_observer b w))) b) = source (bindings w b)"
  "sourceExpression (bindings (snd (snd (resolve_observer b w))) b) = sourceExpression (bindings w b)"
  "styleObserver (bindings (snd (snd (resolve_observer b w))) b) = Some (fst (resolve_observer b w))"
  "isBound (bindings (snd (snd (resolve_observer b w))) b) = isBound (bindings w b)"
  by (simp_all add: resolve_observer_world)

lemma bind_unbound_fromView:
  assumes m: "mode (bindings w b) = fromView"
  shows "\<exists>w'. bind_unbound setProperty b src w = Inr w' \<and>
     styles w' = styles w \<and>
     scopes w' =
       (if attr_present (styles w (target (bindings w b))) \<and>
           targetCssRule_of w b \<in> set (rule_names (styles w (target (bindings w b))))
        then (scopes w)(Some src :=
               assign (sourceExpression (bindings w b)) (scopes w (Some src))
                 (Str (getPropertyValue (styles w (target (bindings w b))) (targetCssRule_of w b))))
        else scopes w) \<and>
     filter is_assignment (trace w') =
       filter is_assignment (trace w) @
       (if attr_present (styles w (target (bindings w b))) \<and>
           targetCssRule_of w b \<in> set (rule_names (styles w (target (bindings w b))))
        then [Assigned b (Some src)
                (Str (getPropertyValue (styles w (target (bindings w b))) (targetCssRule_of w b)))]
        else []) \<and>
     filter is_evaluation (trace w') = filter is_evaluation (trace w) \<and>
     filter is_write (trace w') = filter is_write (trace w) \<and>
     filter is_call (trace w') = filter is_call (trace w) \<and>
     (\<forall>r. registered w (target (bindings w b)) (targetCssRule_of w b) = Some r \<longrightarrow>
          obs_value (observers w' r) = obs_value (observers w r) \<and>
          prevValue (observers w' r) = prevValue (observers w r))"
proof -
  define w0 where "w0 = begin_bind b src w"
  define r where "r = fst (resolve_observer b w0)"
  define w3 where "w3 = snd (snd (resolve_observer b w0))"
  define found where "found \<longleftrightarrow> attr_present (styles w (target (bindings w b))) \<and>
           targetCssRule_of w b \<in> set (rule_names (styles w (target (bindings w b))))"
  define v where "v = Str (getPropertyValue (styles w (target (bindings w b))) (targetCssRule_of w b))"
  define w4 where "w4 = (if found then updateSource b v w3 else w3)"
  have res: "resolve_observer b w0 = (r, targetCssRule_of w b, w3)"
    by (simp add: prod_eq_iff r_def w3_def w0_def resolve_observer_rule)
  have w3_fields: "styles w3 = styles w" "scopes w3 = scopes w"
      "trace w3 = trace w @ (if has_bind (sourceExpression (bindings w b)) then [ExprBind b src] else [])"
      "mode (bindings w3 b) = fromView" "target (bindings w3 b) = target (bindings w b)"
      "source (bindings w3 b) = Some src"
      "sourceExpression (bindings w3 b) = sourceExpression (bindings w b)"
    using m by (simp_all add: w3_def w0_def resolve_observer_world)
  have old: "registered w (target (bindings w b)) (targetCssRule_of w b) = Some r0 \<Longrightarrow>
             r = r0 \<and> observers w3 = observers w" for r0
    by (simp add: r_def w3_def w0_def resolve_observer_fst resolve_observer_observers)
  have rec: "reconcile setProperty b src (targetCssRule_of w b) w3 = Inr w4"
    using w3_fields by (simp add: reconcile_fromView w4_def found_def v_def)
  have w4_fields: "styles w4 = styles w"
      "scopes w4 = (if found then (scopes w)(Some src :=
               assign (sourceExpression (bindings w b)) (scopes w (Some src)) v) else scopes w)"
      "trace w4 = trace w3 @ (if found then [Assigned b (Some src) v] else [])"
      "mode (bindings w4 b) = fromView" "observers w4 = observers w3"
    using w3_fields by (simp_all add: w4_def)
  have result: "bind_unbound setProperty b src w = Inr (with_observer (subscribe styleObserverContext (Binding b)) r w4)"
    using res rec w4_fields(4) by (simp add: bind_unbound_def w0_def [symmetric] register_def)
  show ?thesis
    unfolding result found_def [symmetric] v_def [symmetric]
    apply (rule exI [where x = "with_observer (subscribe styleObserverContext (Binding b)) r w4"])
    using w4_fields w3_fields old
    apply (simp add: with_observer_subscribe subscribe_effects_kinds)
    done
qed


text \<open>The definitions that running \<open>bind\<close> on a concrete world unfolds.\<close>

lemmas bind_eval =
  bind_def bind_unbound_def begin_bind_def resolve_observer_def hyphenate_def
  reconcile_def register_def updateTarget_def with_observer_def observer_state_def
  setValue_def notify_def callSubscribers_def strict_neq_def subscribe_def
  observeMutation_def hasSubscribers_def addSubscriber_def new_observer_def
  styleObserverContext_def log_event_def Let_def


lemma hyphenate_compute_color: "hyphenate_compute ''color'' = ''color''"
  by code_simp


lemma ex_world_rule: "targetCssRule_of (ex_world m v) b = ''color''"
  by (simp add: targetCssRule_of_def hyphenate_def ex_world_def ex_binding_def
        hyphenate_compute_color)

lemma ex_unstyled_rule: "targetCssRule_of ex_unstyled b = ''color''"
  by (simp add: targetCssRule_of_def hyphenate_def ex_unstyled_def ex_world_def ex_binding_def
        hyphenate_compute_color)


text \<open>
  C3, as the code has it. A from-view \<open>bind(source)\<close> on a binding that is not
  already bound to that source assigns to the source exactly when the element has a style
  attribute and the hyphenated target rule is among the enumerated rules of its style; the
  value assigned is what
  \<open>getPropertyValue\<close> gives for that rule. Otherwise the scopes are left as they were.
  Either way the bind evaluates nothing, writes nothing to the style surface, calls no
  subscriber and leaves the cached values of the observer alone.
\<close>

theorem bind_fromView:
  assumes "mode (bindings w b) = fromView"
      and "\<not> (isBound (bindings w b) \<and> source (bindings w b) = Some src)"
      and "binding_ok (bindings w b)"
  shows "\<exists>w'. bind setProperty b src w = Inr w' \<and>
     styles w' = styles w \<and>
     scopes w' =
       (if attr_present (styles w (target (bindings w b))) \<and>
           targetCssRule_of w b \<in> set (rule_names (styles w (target (bindings w b))))
        then (scopes w)(Some src :=
               assign (sourceExpression (bindings w b)) (scopes w (Some src))
                 (Str (getPropertyValue (styles w (target (bindings w b))) (targetCssRule_of w b))))
        else scopes w) \<and>
     filter is_assignment (trace w') =
       filter is_assignment (trace w) @
       (if attr_present (styles w (target (bindings w b))) \<and>
           targetCssRule_of w b \<in> set (rule_names (styles w (target (bindings w b))))
        then [Assigned b (Some src)
                (Str (getPropertyValue (styles w (target (bindings w b))) (targetCssRule_of w b)))]
        else []) \<and>
     filter is_evaluation (trace w') = filter is_evaluation (trace w) \<and>
     filter is_write (trace w') = filter is_write (trace w) \<and>
     filter is_call (trace w') = filter is_call (trace w) \<and>
     (\<forall>r. registered w (target (bindings w b)) (targetCssRule_of w b) = Some r \<longrightarrow>
          obs_value (observers w' r) = obs_value (observers w r) \<and>
          prevValue (observers w' r) = prevValue (observers w r))"
proof -
  obtain w1 where w1:
    "bind setProperty b src w = bind_unbound setProperty b src w1"
    "styles w1 = styles w" "scopes w1 = scopes w"
    "style_observer_lookup w1 = style_observer_lookup w"
    "hyphenateCache w1 = hyphenateCache w" "next_observer w1 = next_observer w"
    "target (bindings w1 b) = target (bindings w b)"
    "targetProperty (bindings w1 b) = targetProperty (bindings w b)"
    "mode (bindings w1 b) = mode (bindings w b)"
    "sourceExpression (bindings w1 b) = sourceExpression (bindings w b)"
    "\<And>r. obs_value (observers w1 r) = obs_value (observers w r)"
    "\<And>r. prevValue (observers w1 r) = prevValue (observers w r)"
    "filter is_write (trace w1) = filter is_write (trace w)"
    "filter is_call (trace w1) = filter is_call (trace w)"
    "filter is_evaluation (trace w1) = filter is_evaluation (trace w)"
    "filter is_assignment (trace w1) = filter is_assignment (trace w)"
    using bind_cases [OF assms(2,3), of setProperty] by metis
  have "\<And>el rule. registered w1 el rule = registered w el rule"
    by (simp add: registered_def w1(4))
  then have same: "targetCssRule_of w1 b = targetCssRule_of w b" "registered w1 = registered w"
    by (simp_all add: targetCssRule_of_def w1(5,8) fun_eq_iff)
  have "mode (bindings w1 b) = fromView"
    using w1 assms(1) by simp
  from bind_unbound_fromView [OF this, of setProperty src] show ?thesis
    unfolding w1(1) same w1(2-) .
qed

theorem bind_fromView_witness:
  "mode (bindings (ex_world fromView Undefined) 0) = fromView \<and>
   \<not> (isBound (bindings (ex_world fromView Undefined) 0) \<and>
      source (bindings (ex_world fromView Undefined) 0) = Some 5) \<and>
   binding_ok (bindings (ex_world fromView Undefined) 0) \<and>
   (\<exists>w'. bind ex_dom 0 5 (ex_world fromView Undefined) = Inr w' \<and>
         scopes w' (Some 5) = Str ''red'' \<and>
         filter is_assignment (trace w') = [Assigned 0 (Some 5) (Str ''red'')] \<and>
         filter is_evaluation (trace w') = [] \<and>
         filter is_write (trace w') = []) \<and>
   (\<exists>w'. bind ex_dom 0 5 ex_unstyled = Inr w' \<and>
         scopes w' = scopes ex_unstyled \<and>
         filter is_assignment (trace w') = [])"
proof -
  have s1: "mode (bindings (ex_world fromView Undefined) 0) = fromView"
    and s2: "\<not> (isBound (bindings (ex_world fromView Undefined) 0) \<and>
               source (bindings (ex_world fromView Undefined) 0) = Some 5)"
    and s3: "binding_ok (bindings (ex_world fromView Undefined) 0)"
    by (simp_all add: ex_world_def ex_binding_def binding_ok_def)
  have u1: "mode (bindings ex_unstyled 0) = fromView"
    and u2: "\<not> (isBound (bindings ex_unstyled 0) \<and> source (bindings ex_unstyled 0) = Some 5)"
    and u3: "binding_ok (bindings ex_unstyled 0)"
    by (simp_all add: ex_unstyled_def ex_world_def ex_binding_def binding_ok_def)
  have styled: "\<exists>w'. bind ex_dom 0 5 (ex_world fromView Undefined) = Inr w' \<and>
         scopes w' (Some 5) = Str ''red'' \<and>
         filter is_assignment (trace w') = [Assigned 0 (Some 5) (Str ''red'')] \<and>
         filter is_evaluation (trace w') = [] \<and>
         filter is_write (trace w') = []"
    using bind_fromView [OF s1 s2 s3, of ex_dom]
    unfolding ex_world_rule
    by (auto simp: ex_world_def ex_binding_def ex_style_def ex_expression_def)
  have unstyled: "\<exists>w'. bind ex_dom 0 5 ex_unstyled = Inr w' \<and>
         scopes w' = scopes ex_unstyled \<and>
         filter is_assignment (trace w') = []"
    using bind_fromView [OF u1 u2 u3, of ex_dom]
    unfolding ex_unstyled_rule
    by (auto simp: ex_unstyled_def ex_world_def)
  from s1 s2 s3 styled unstyled show ?thesis
    by blast
qed

text \<open>
  C3, as the claim has it, fails on a binding that is already bound to the source. Binding
  0 is bound from-view to scope 5 while the element has no style attribute; the element is
  then styled \<open>color: red\<close>. The attribute is present and the rule is among the enumerated
  ones, and \<open>bind\<close> of scope 5 returns the world as it was: nothing is assigned.
\<close>

theorem bind_fromView_repeat_counterexample:
  "bind ex_dom 0 5 ex_unstyled = Inr ex_fromView_bound \<and>
   mode (bindings ex_fromView_styled 0) = fromView \<and>
   attr_present (styles ex_fromView_styled 0) \<and>
   targetCssRule_of ex_fromView_styled 0 = ''color'' \<and>
   ''color'' \<in> set (rule_names (styles ex_fromView_styled 0)) \<and>
   getPropertyValue (styles ex_fromView_styled 0) ''color'' = ''red'' \<and>
   bind ex_dom 0 5 ex_fromView_styled = Inr ex_fromView_styled \<and>
   filter is_assignment (trace ex_fromView_styled) = [] \<and>
   scopes ex_fromView_styled (Some 5) = Undefined"
proof -
  have reach: "bind ex_dom 0 5 ex_unstyled = Inr ex_fromView_bound"
    by (simp add: bind_eval hyphenate_compute_color ex_unstyled_def ex_world_def ex_binding_def
          ex_expression_def ex_fromView_bound_def fun_eq_iff)
  have state: "mode (bindings ex_fromView_styled 0) = fromView"
      "attr_present (styles ex_fromView_styled 0)"
      "targetCssRule_of ex_fromView_styled 0 = ''color''"
      "''color'' \<in> set (rule_names (styles ex_fromView_styled 0))"
      "getPropertyValue (styles ex_fromView_styled 0) ''color'' = ''red''"
      "filter is_assignment (trace ex_fromView_styled) = []"
      "scopes ex_fromView_styled (Some 5) = Undefined"
    by (simp_all add: ex_fromView_styled_def ex_fromView_bound_def ex_binding_def ex_style_def
          targetCssRule_of_def hyphenate_def)
  have again: "bind ex_dom 0 5 ex_fromView_styled = Inr ex_fromView_styled"
    by (simp add: bind_def ex_fromView_styled_def ex_fromView_bound_def ex_binding_def)
  from reach state again show ?thesis
    by blast
qed

lemma setValue_same: "strict_eq v (obs_value (self s)) \<Longrightarrow> setValue setProperty v s = s"
  by (simp add: setValue_def strict_neq_def)

lemma updateTarget_same:
  "styleObserver (bindings w b) = Some r \<Longrightarrow> strict_eq v (obs_value (observers w r)) \<Longrightarrow>
   updateTarget setProperty b v w = Inr w"
  by (simp add: updateTarget_def with_observer_id setValue_same)

lemma bind_unbound_undefined:
  assumes m: "mode (bindings w b) \<noteq> fromView"
      and ev: "evaluate (sourceExpression (bindings w b)) (scopes w (Some src)) = Undefined"
      and fresh: "\<forall>r. registered w (target (bindings w b)) (targetCssRule_of w b) = Some r \<longrightarrow>
                   obs_value (observers w r) = Undefined"
  shows "\<exists>w'. bind_unbound setProperty b src w = Inr w' \<and> styles w' = styles w \<and>
           filter is_write (trace w') = filter is_write (trace w) \<and>
           filter is_call (trace w') = filter is_call (trace w)"
proof -
  define w0 where "w0 = begin_bind b src w"
  define r where "r = fst (resolve_observer b w0)"
  define w3 where "w3 = snd (snd (resolve_observer b w0))"
  define w4 where "w4 = log_event (Evaluated b (Some src)) w3"
  have res: "resolve_observer b w0 = (r, targetCssRule_of w b, w3)"
    by (simp add: prod_eq_iff r_def w3_def w0_def resolve_observer_rule)
  have w3_fields: "styles w3 = styles w" "scopes w3 = scopes w"
      "trace w3 = trace w @ (if has_bind (sourceExpression (bindings w b)) then [ExprBind b src] else [])"
      "mode (bindings w3 b) = mode (bindings w b)"
      "styleObserver (bindings w3 b) = Some r"
      "sourceExpression (bindings w3 b) = sourceExpression (bindings w b)"
    by (simp_all add: w3_def w0_def r_def resolve_observer_world)
  have undefined: "obs_value (observers w3 r) = Undefined"
    using fresh
    by (cases "registered w (target (bindings w b)) (targetCssRule_of w b)")
       (simp_all add: r_def w3_def w0_def resolve_observer_fst resolve_observer_observers
          new_observer_def)
  have "updateTarget setProperty b Undefined w4 = Inr w4"
    using w3_fields(5) undefined by (intro updateTarget_same [where r = r]) (simp_all add: w4_def)
  then have rec: "reconcile setProperty b src (targetCssRule_of w b) w3 = Inr w4"
    using m ev w3_fields by (simp add: reconcile_def Let_def w4_def)
  have result: "bind_unbound setProperty b src w = Inr (register b src r w4)"
    using res rec by (simp add: bind_unbound_def w0_def [symmetric])
  have "styles (register b src r w4) = styles w \<and>
        filter is_write (trace (register b src r w4)) = filter is_write (trace w) \<and>
        filter is_call (trace (register b src r w4)) = filter is_call (trace w)"
    using w3_fields m
    by (cases "mode (bindings w b)")
       (simp_all add: register_def w4_def with_observer_subscribe subscribe_effects_kinds)
  then show ?thesis
    using result by simp
qed


text \<open>
  C10. A newly constructed observer caches \<open>undefined\<close>. On an observer that caches
  \<open>undefined\<close>, \<open>setValue(undefined)\<close> returns the state as it was, and the
  \<open>setValue\<close> of a value that is not \<open>undefined\<close> writes it and calls every subscriber
  with that value and \<open>undefined\<close> as the old value. Hence a to-view, two-way or one-time
  bind whose expression evaluates to \<open>undefined\<close>, on a property whose observer is yet to
  be constructed or still caches \<open>undefined\<close>, leaves every style as it was, writes nothing
  and calls no subscriber.
\<close>

theorem fresh_observer_undefined:
  "obs_value (new_observer el rule hyphenated) = Undefined \<and>
   (obs_value (self s) = Undefined \<longrightarrow> setValue setProperty Undefined s = s) \<and>
   (obs_value (self s) = Undefined \<and> strict_neq v Undefined \<longrightarrow>
      obs_value (self (setValue setProperty v s)) = v \<and>
      prevValue (self (setValue setProperty v s)) = Undefined \<and>
      effects (setValue setProperty v s)
        = effects s @ StyleWrite (element (self s)) (hyphenatedCssRule (self s)) v
            # map (\<lambda>sub. Called (fst sub) (snd sub) v Undefined) (subscribers (self s))) \<and>
   (mode (bindings w b) \<in> {toView, twoWay, oneTime} \<and>
    evaluate (sourceExpression (bindings w b)) (scopes w (Some src)) = Undefined \<and>
    (\<forall>r. registered w (target (bindings w b)) (targetCssRule_of w b) = Some r \<longrightarrow>
         obs_value (observers w r) = Undefined) \<and>
    \<not> (isBound (bindings w b) \<and> source (bindings w b) = Some src) \<and>
    binding_ok (bindings w b) \<longrightarrow>
      (\<exists>w'. bind setProperty b src w = Inr w' \<and> styles w' = styles w \<and>
            filter is_write (trace w') = filter is_write (trace w) \<and>
            filter is_call (trace w') = filter is_call (trace w)))"
proof (intro conjI impI)
  show "obs_value (new_observer el rule hyphenated) = Undefined"
    by (simp add: new_observer_def)
next
  assume "obs_value (self s) = Undefined"
  then show "setValue setProperty Undefined s = s"
    by (simp add: setValue_same)
next
  assume a: "obs_value (self s) = Undefined \<and> strict_neq v Undefined"
  then show "obs_value (self (setValue setProperty v s)) = v"
    and "prevValue (self (setValue setProperty v s)) = Undefined"
    and "effects (setValue setProperty v s)
        = effects s @ StyleWrite (element (self s)) (hyphenatedCssRule (self s)) v
            # map (\<lambda>sub. Called (fst sub) (snd sub) v Undefined) (subscribers (self s))"
    by (simp_all add: setValue_def notify_def callSubscribers_conv Let_def)
next
  assume a: "mode (bindings w b) \<in> {toView, twoWay, oneTime} \<and>
    evaluate (sourceExpression (bindings w b)) (scopes w (Some src)) = Undefined \<and>
    (\<forall>r. registered w (target (bindings w b)) (targetCssRule_of w b) = Some r \<longrightarrow>
         obs_value (observers w r) = Undefined) \<and>
    \<not> (isBound (bindings w b) \<and> source (bindings w b) = Some src) \<and>
    binding_ok (bindings w b)"
  then have m: "mode (bindings w b) \<noteq> fromView"
    by auto
  from a have again: "\<not> (isBound (bindings w b) \<and> source (bindings w b) = Some src)"
    and ok: "binding_ok (bindings w b)"
    by simp_all
  obtain w1 where w1:
    "bind setProperty b src w = bind_unbound setProperty b src w1"
    "styles w1 = styles w" "scopes w1 = scopes w"
    "style_observer_lookup w1 = style_observer_lookup w"
    "hyphenateCache w1 = hyphenateCache w" "next_observer w1 = next_observer w"
    "target (bindings w1 b) = target (bindings w b)"
    "targetProperty (bindings w1 b) = targetProperty (bindings w b)"
    "mode (bindings w1 b) = mode (bindings w b)"
    "sourceExpression (bindings w1 b) = sourceExpression (bindings w b)"
    "\<And>r. obs_value (observers w1 r) = obs_value (observers w r)"
    "\<And>r. prevValue (observers w1 r) = prevValue (observers w r)"
    "filter is_write (trace w1) = filter is_write (trace w)"
    "filter is_call (trace w1) = filter is_call (trace w)"
    "filter is_evaluation (trace w1) = filter is_evaluation (trace w)"
    "filter is_assignment (trace w1) = filter is_assignment (trace w)"
    using bind_cases [OF again ok, of setProperty] by metis
  have "\<And>el rule. registered w1 el rule = registered w el rule"
    by (simp add: registered_def w1(4))
  then have same: "targetCssRule_of w1 b = targetCssRule_of w b" "registered w1 = registered w"
    by (simp_all add: targetCssRule_of_def w1(5,8) fun_eq_iff)
  have "\<exists>w'. bind_unbound setProperty b src w1 = Inr w' \<and> styles w' = styles w1 \<and>
           filter is_write (trace w') = filter is_write (trace w1) \<and>
           filter is_call (trace w') = filter is_call (trace w1)"
    using a m by (intro bind_unbound_undefined) (simp_all add: w1 same)
  then show "\<exists>w'. bind setProperty b src w = Inr w' \<and> styles w' = styles w \<and>
            filter is_write (trace w') = filter is_write (trace w) \<and>
            filter is_call (trace w') = filter is_call (trace w)"
    by (simp add: w1)
qed

theorem fresh_observer_undefined_witness:
  "obs_value (self ex_fresh) = Undefined \<and>
   setValue ex_dom Undefined ex_fresh = ex_fresh \<and>
   strict_neq (Str ''blue'') Undefined \<and>
   effects (setValue ex_dom (Str ''blue'')
              (subscribe ''StyleObserver:context'' (Binding 0) ex_fresh))
     = [WatchCreated 0, StyleWrite 0 ''color'' (Str ''blue''),
        Called ''StyleObserver:context'' (Binding 0) (Str ''blue'') Undefined] \<and>
   mode (bindings (ex_world twoWay Undefined) 0) \<in> {toView, twoWay, oneTime} \<and>
   evaluate (sourceExpression (bindings (ex_world twoWay Undefined) 0))
     (scopes (ex_world twoWay Undefined) (Some 5)) = Undefined \<and>
   binding_ok (bindings (ex_world twoWay Undefined) 0) \<and>
   (\<exists>w'. bind ex_dom 0 5 (ex_world twoWay Undefined) = Inr w' \<and>
         styles w' = styles (ex_world twoWay Undefined) \<and>
         filter is_write (trace w') = [] \<and> filter is_call (trace w') = [])"
proof -
  let ?s = "subscribe ''StyleObserver:context'' (Binding 0) ex_fresh"
  let ?w = "ex_world twoWay Undefined"
  have o1: "obs_value (self ex_fresh) = Undefined" "obs_value (self ?s) = Undefined"
    and o2: "strict_neq (Str ''blue'') Undefined"
    by (simp_all add: ex_fresh_def new_observer_def strict_neq_def)
  have b1: "mode (bindings ?w 0) \<in> {toView, twoWay, oneTime}"
    and b2: "evaluate (sourceExpression (bindings ?w 0)) (scopes ?w (Some 5)) = Undefined"
    and b3: "\<forall>r. registered ?w (target (bindings ?w 0)) (targetCssRule_of ?w 0) = Some r \<longrightarrow>
                 obs_value (observers ?w r) = Undefined"
    and b4: "\<not> (isBound (bindings ?w 0) \<and> source (bindings ?w 0) = Some 5)"
    and b5: "binding_ok (bindings ?w 0)"
    by (simp_all add: ex_world_def ex_binding_def ex_expression_def binding_ok_def
          registered_def new_observer_def)
  note t1 = fresh_observer_undefined [of 0 "''color''" "''color''" ex_fresh ex_dom "Str ''blue''" ?w 0 5]
  note t2 = fresh_observer_undefined [of 0 "''color''" "''color''" ?s ex_dom "Str ''blue''" ?w 0 5]
  have c1: "setValue ex_dom Undefined ex_fresh = ex_fresh"
    using t1 o1 by blast
  have c2: "effects (setValue ex_dom (Str ''blue'') ?s)
     = [WatchCreated 0, StyleWrite 0 ''color'' (Str ''blue''),
        Called ''StyleObserver:context'' (Binding 0) (Str ''blue'') Undefined]"
    using t2 o1 o2
    by (simp add: subscribe_effects subscribe_self) (simp add: ex_fresh_def new_observer_def)
  have c3: "\<exists>w'. bind ex_dom 0 5 ?w = Inr w' \<and> styles w' = styles ?w \<and>
         filter is_write (trace w') = [] \<and> filter is_call (trace w') = []"
    using t1 b1 b2 b3 b4 b5 by (simp add: ex_world_def)
  from o1 o2 b1 b2 b5 c1 c2 c3 show ?thesis
    by blast
qed



lemma response_kinds [simp]:
  "filter is_write (response bs e) = []"
  "filter is_call (response bs e) = []"
  "filter is_evaluation (response bs e) = []"
  by (induction bs e rule: response.induct; simp)+



lemma strict_eq_Str [simp]: "strict_eq (Str x) (Str y) = (x = y)"
  by simp






lemma external_setProperty_fields [simp]:
  "observers (external_setProperty setProperty el rule v w) = observers w"
  "bindings (external_setProperty setProperty el rule v w) = bindings w"
  "scopes (external_setProperty setProperty el rule v w) = scopes w"
  "trace (external_setProperty setProperty el rule v w) = trace w"
  by (simp_all add: external_setProperty_def)







lemma register_frame [simp]:
  "style_observer_lookup (register b src r w) = style_observer_lookup w"
  "hyphenateCache (register b src r w) = hyphenateCache w"
  "next_observer (register b src r w) = next_observer w"
  by (simp_all add: register_def split: bindingMode.splits)














end
